theory Spec2Isabelle
  imports Complex_Main
begin

section \<open>Python values shared by both modules\<close>

text \<open>
  Exceptions are values. Only classes deriving from Python's \<open>Exception\<close> are modelled
  (the ones an \<open>except Exception\<close> clause catches); the string is the message.
\<close>

datatype exn =
    AttributeError string
  | AssertionError string
  | RuntimeError string
  | IndexError string
  | ZeroDivisionError string
  | StopIteration
  | KeyError string
  | OtherException string

section \<open>open\_clip/mammut\_model.py\<close>

text \<open>
  The tensor framework is external. Floating-point tensors are an abstract type \<open>'t\<close>
  and the four framework operations the module calls on them are the fields of
  \<open>torch_ops\<close>: \<open>x.mean(1)\<close>, \<open>F.normalize(x, dim=-1)\<close> (the framework's L2
  normalisation along the last dimension), \<open>a @ b\<close> and \<open>x.exp()\<close>. Every theorem
  below holds for all such operations, so it does not depend on floating-point rounding.

  A batch of token ids is a list of rows of integers; the two slices the module takes of
  it, \<open>text[:, 1:]\<close> and \<open>text[:, :-1]\<close>, are written out on that representation.
\<close>

type_synonym tokens = "int list list"

record 't torch_ops =
  mean_dim1 :: "'t \<Rightarrow> 't"
  F_normalize :: "'t \<Rightarrow> 't"
  matmul :: "'t \<Rightarrow> 't \<Rightarrow> 't"
  tensor_exp :: "'t \<Rightarrow> 't"

text \<open>
  The attributes of a constructed \<open>MaMMUT\<close> object. The two towers are built by code
  outside this module; what the module uses of them is their forward function
  (\<open>self.text(text_embs=..., image_embs=...)\<close> returning \<open>(token_logits, text_latent)\<close>,
  \<open>self.visual(image)\<close> returning \<open>(image_latent, image_embs)\<close>) and the
  \<open>requires_grad\<close> flag of their parameters, addressed by qualified name.
  The keyword \<open>text\<close> cannot be a field name, so the towers are \<open>text_tower\<close> and
  \<open>visual_tower\<close>.
\<close>

record ('img, 't) mammut =
  text_tower :: "tokens \<Rightarrow> 't option \<Rightarrow> 't \<times> 't"
  visual_tower :: "'img \<Rightarrow> 't \<times> 't"
  context_length :: nat
  map_viz2txt_kv :: 't
  logit_scale :: 't
  logit_bias :: "'t option"
  pad_id :: int
  use_contrastive :: bool
  requires_grad :: "string \<Rightarrow> bool"

text \<open>\<open>MaMMUT._encode_text\<close> (an identifier cannot start with an underscore).\<close>

definition priv_encode_text ::
  "('img, 't) mammut \<Rightarrow> tokens \<Rightarrow> 't option \<Rightarrow> 't \<times> 't" where
  "priv_encode_text self txt image_embs =
     (let (token_logits, text_latent) = text_tower self txt image_embs
      in (token_logits, text_latent))"

text \<open>\<open>MaMMUT.encode_text\<close>; the defaults are \<open>image_embs=None\<close>, \<open>normalize=True\<close>,
  \<open>output_logits=False\<close>. The argument \<open>normalize\<close> is \<open>norm_flag\<close> here, the name
  being a constant of the library.\<close>

definition encode_text ::
  "'t torch_ops \<Rightarrow> ('img, 't) mammut \<Rightarrow> tokens \<Rightarrow> 't option \<Rightarrow> bool \<Rightarrow> bool \<Rightarrow> 't" where
  "encode_text fw self txt image_embs norm_flag output_logits =
     (let (token_logits, text_latent) = priv_encode_text self txt image_embs
      in if output_logits then token_logits
         else
           (let text_latent = mean_dim1 fw text_latent;
                text_latent = (if norm_flag then F_normalize fw text_latent else text_latent)
            in text_latent))"

text \<open>\<open>MaMMUT._encode_image\<close> and \<open>MaMMUT.encode_image\<close> (\<open>img\<close> is the argument
  \<open>image\<close>).\<close>

definition priv_encode_image ::
  "'t torch_ops \<Rightarrow> ('img, 't) mammut \<Rightarrow> 'img \<Rightarrow> bool \<Rightarrow> 't \<times> 't" where
  "priv_encode_image fw self img norm_flag =
     (let (image_latent, image_embs) = visual_tower self img;
          image_latent = (if norm_flag then F_normalize fw image_latent else image_latent)
      in (image_latent, image_embs))"

definition encode_image ::
  "'t torch_ops \<Rightarrow> ('img, 't) mammut \<Rightarrow> 'img \<Rightarrow> bool \<Rightarrow> 't" where
  "encode_image fw self img norm_flag =
     (let (image_latent, _) = priv_encode_image fw self img norm_flag
      in image_latent)"

text \<open>
  \<open>MaMMUT._use_contrastive\<close>. Each assignment \<open>p.requires_grad = False\<close> updates the
  flag of one parameter; the six assignments are kept in the order of the source.
\<close>

definition set_requires_grad ::
  "string \<Rightarrow> bool \<Rightarrow> ('img, 't) mammut \<Rightarrow> ('img, 't) mammut" where
  "set_requires_grad p b self = self\<lparr>requires_grad := (requires_grad self)(p := b)\<rparr>"

definition priv_use_contrastive ::
  "('img, 't) mammut \<Rightarrow> bool \<Rightarrow> ('img, 't) mammut" where
  "priv_use_contrastive self used =
     (let self = self\<lparr>use_contrastive := used\<rparr>
      in if \<not> used then
           (let self = set_requires_grad ''text.ln_final.bias'' False self;
                self = set_requires_grad ''text.ln_final.weight'' False self;
                self = set_requires_grad ''visual.proj'' False self;
                self = set_requires_grad ''visual.ln_post.bias'' False self;
                self = set_requires_grad ''visual.ln_post.weight'' False self;
                self = set_requires_grad ''logit_scale'' False self
            in self)
         else self)"

text \<open>
  The values stored in the output dictionary of \<open>forward\<close>: \<open>None\<close>, a floating-point
  tensor, or a tensor of token ids. The dictionary is a map from its string keys.
\<close>

datatype 't pyval = PyNone | FloatTensor 't | IntTensor tokens

type_synonym 't out_dict = "string \<rightharpoonup> 't pyval"

text \<open>
  \<open>MaMMUT._forward\<close>. \<open>text[:, 1:]\<close> drops the first column of every row and
  \<open>text[:, :-1]\<close> the last one; on a row with no token both slices are empty, as
  \<open>drop 1\<close> and \<open>butlast\<close> are. The contrastive branch calls \<open>encode_text(text)\<close>
  with the defaults.
\<close>

definition priv_forward ::
  "'t torch_ops \<Rightarrow> ('img, 't) mammut \<Rightarrow> tokens \<Rightarrow> 't out_dict \<Rightarrow> 't option \<Rightarrow> bool \<Rightarrow> bool
     \<Rightarrow> 't out_dict" where
  "priv_forward fw self txt out image_embs contrastive is_training =
     (if contrastive then
        (let text_features = encode_text fw self txt None True False
         in out(''text_features'' \<mapsto> FloatTensor text_features))
      else
        (let image_embs =
               (case image_embs of
                  None \<Rightarrow> None
                | Some e \<Rightarrow> Some (matmul fw e (map_viz2txt_kv self)));
             out = out(''labels'' \<mapsto> IntTensor (map (drop 1) txt));
             txt = (if is_training then map butlast txt else txt);
             out = out(''logits'' \<mapsto> FloatTensor (encode_text fw self txt image_embs True True))
         in out))"

text \<open>\<open>MaMMUT.forward\<close>; every argument that defaults to \<open>None\<close> is an option.\<close>

definition forward ::
  "'t torch_ops \<Rightarrow> ('img, 't) mammut \<Rightarrow> 'img option \<Rightarrow> tokens option \<Rightarrow> 't option \<Rightarrow> 't option
     \<Rightarrow> bool \<Rightarrow> 't out_dict" where
  "forward fw self img txt image_latent image_embs is_training =
     (let out = [''logit_scale'' \<mapsto> FloatTensor (tensor_exp fw (logit_scale self))];
          (image_latent, image_embs) =
            (case img of
               Some i \<Rightarrow>
                 if image_latent = None \<or> image_embs = None then
                   (let (l, e) = priv_encode_image fw self i True in (Some l, Some e))
                 else (image_latent, image_embs)
             | None \<Rightarrow> (image_latent, image_embs));
          out = out(''image_features'' \<mapsto>
                  (case image_latent of None \<Rightarrow> PyNone | Some l \<Rightarrow> FloatTensor l))
      in case txt of
           None \<Rightarrow> out
         | Some t \<Rightarrow>
             (let out =
                    (if is_training \<and> use_contrastive self then
                       priv_forward fw self t out None True True
                     else out(''text_features'' \<mapsto> PyNone))
              in priv_forward fw self t out image_embs False is_training))"

subsection \<open>Construction\<close>

text \<open>
  The configuration dataclasses are declared outside this module; the records hold the
  fields this module reads (a prefix keeps the two \<open>width\<close> fields apart).
  \<open>multimodal_cfg.__dict__.get("hf_model_name", None)\<close> is the field
  \<open>hf_model_name\<close>, \<open>None\<close> also when the dataclass has no such field. The arguments
  \<open>text_cfg\<close> and \<open>vision_cfg\<close> are taken after their conversion from a dict.
\<close>

datatype dtype = Float16 | BFloat16 | Float32 | OtherDtype string

datatype act_layer = QuickGELU | GELU

datatype norm_layer = LayerNormFp32 | LayerNorm

record multimodal_cfg =
  mm_context_length :: nat
  mm_vocab_size :: nat
  mm_width :: nat
  mm_heads :: nat
  mm_layers :: nat
  mm_ls_init_value :: "rat option"
  mm_cross_attn_ratio :: nat
  mm_does_full_decoding :: bool
  mm_output_tokens :: bool
  mm_has_mlp :: bool
  hf_model_name :: "string option"

record clip_vision_cfg =
  v_width :: nat
  v_layers :: nat
  v_image_size :: nat
  v_patch_size :: nat

text \<open>The keyword arguments \<open>_build_multimodal_decoder_tower\<close> passes to the constructor
  \<open>MultimodalTransformer\<close>.\<close>

record decoder_kwargs =
  kw_context_length :: nat
  kw_width :: nat
  kw_heads :: nat
  kw_layers :: nat
  kw_ls_init_value :: "rat option"
  kw_cross_attn_ratio :: nat
  kw_does_full_decoding :: bool
  kw_output_tokens :: bool
  kw_has_mlp :: bool
  kw_output_dim :: nat
  kw_act_layer :: act_layer
  kw_norm_layer :: norm_layer

text \<open>
  What \<open>__init__\<close> calls outside this module: the decoder's constructor, the vision
  tower's builder, \<open>torch.randn(m, n)\<close>, \<open>torch.ones(shape) * x\<close>, the
  \<open>config.vocab_size\<close> of a text tower, and the \<open>requires_grad\<close> flags the towers'
  parameters are created with.
\<close>

record ('img, 't) externals =
  MultimodalTransformer :: "decoder_kwargs \<Rightarrow> tokens \<Rightarrow> 't option \<Rightarrow> 't \<times> 't"
  build_vision_tower :: "nat \<Rightarrow> clip_vision_cfg \<Rightarrow> bool \<Rightarrow> dtype option \<Rightarrow> 'img \<Rightarrow> 't \<times> 't"
  torch_randn :: "nat \<Rightarrow> nat \<Rightarrow> 't"
  torch_ones_times :: "nat list \<Rightarrow> rat \<Rightarrow> 't"
  config_vocab_size :: "(tokens \<Rightarrow> 't option \<Rightarrow> 't \<times> 't) \<Rightarrow> nat"
  tower_requires_grad :: "string \<Rightarrow> bool"

definition build_multimodal_decoder_tower ::
  "('img, 't) externals \<Rightarrow> nat \<Rightarrow> multimodal_cfg \<Rightarrow> bool \<Rightarrow> dtype option
     \<Rightarrow> tokens \<Rightarrow> 't option \<Rightarrow> 't \<times> 't" where
  "build_multimodal_decoder_tower ext embed_dim cfg quick_gelu cast_dtype =
     (let act = (if quick_gelu then QuickGELU else GELU);
          nrm = (if cast_dtype \<in> {Some Float16, Some BFloat16} then LayerNormFp32 else LayerNorm);
          decoder = MultimodalTransformer ext
            \<lparr>kw_context_length = mm_context_length cfg,
             kw_width = mm_width cfg,
             kw_heads = mm_heads cfg,
             kw_layers = mm_layers cfg,
             kw_ls_init_value = mm_ls_init_value cfg,
             kw_cross_attn_ratio = mm_cross_attn_ratio cfg,
             kw_does_full_decoding = mm_does_full_decoding cfg,
             kw_output_tokens = mm_output_tokens cfg,
             kw_has_mlp = mm_has_mlp cfg,
             kw_output_dim = embed_dim,
             kw_act_layer = act,
             kw_norm_layer = nrm\<rparr>
      in decoder)"

text \<open>
  Reading the attribute \<open>text\<close> of the object under construction: a module raises
  \<open>AttributeError\<close> for an attribute that has not been assigned.
\<close>

definition getattr_text ::
  "(tokens \<Rightarrow> 't option \<Rightarrow> 't \<times> 't) option \<Rightarrow> exn + (tokens \<Rightarrow> 't option \<Rightarrow> 't \<times> 't)" where
  "getattr_text a =
     (case a of
        None \<Rightarrow> Inl (AttributeError ''MaMMUT object has no attribute text'')
      | Some t \<Rightarrow> Inr t)"

text \<open>
  \<open>MaMMUT.__init__\<close>. After \<open>super().__init__()\<close> the object has no attribute
  \<open>text\<close> (\<open>self_text = None\<close>); the conditional expression for \<open>vocab_size\<close> tests
  \<open>hf_model_name\<close> first and evaluates only the chosen side.
\<close>

definition init ::
  "('img, 't) externals \<Rightarrow> nat \<Rightarrow> multimodal_cfg \<Rightarrow> clip_vision_cfg \<Rightarrow> bool \<Rightarrow> dtype option
     \<Rightarrow> int \<Rightarrow> rat \<Rightarrow> rat option \<Rightarrow> bool \<Rightarrow> exn + ('img, 't) mammut" where
  "init ext embed_dim text_cfg vision_cfg quick_gelu cast_dtype pad init_logit_scale
        init_logit_bias nonscalar_logit_scale =
     (let self_text = None;
          multimodal_cfg = text_cfg
      in case (if hf_model_name multimodal_cfg \<noteq> None
               then (case getattr_text self_text of
                       Inl e \<Rightarrow> Inl e
                     | Inr t \<Rightarrow> Inr (config_vocab_size ext t))
               else Inr (mm_vocab_size multimodal_cfg)) of
           Inl e \<Rightarrow> Inl e
         | Inr vocab_size \<Rightarrow>
             (let self_text = build_multimodal_decoder_tower ext vocab_size multimodal_cfg
                                quick_gelu cast_dtype;
                  self_visual = build_vision_tower ext embed_dim vision_cfg quick_gelu cast_dtype;
                  lshape = (if nonscalar_logit_scale then [1] else [])
              in Inr \<lparr>text_tower = self_text,
                      visual_tower = self_visual,
                      context_length = mm_context_length multimodal_cfg,
                      map_viz2txt_kv = torch_randn ext (v_width vision_cfg) (mm_width multimodal_cfg),
                      logit_scale = torch_ones_times ext lshape init_logit_scale,
                      logit_bias =
                        (case init_logit_bias of
                           Some b \<Rightarrow> Some (torch_ones_times ext lshape b)
                         | None \<Rightarrow> None),
                      pad_id = pad,
                      use_contrastive = True,
                      requires_grad = (\<lambda>p.
                        if p \<in> {''map_viz2txt_kv'', ''logit_scale'', ''logit_bias''} then True
                        else tower_requires_grad ext p)\<rparr>))"

subsection \<open>A symbolic framework\<close>

text \<open>
  For evaluating the definitions on a concrete input: tensors as the terms of the
  operations that produced them, so that a result shows which framework calls were
  composed. Images are numbered.
\<close>

datatype sym =
    Pooled nat
  | ImageEmbs nat
  | TokenLogits tokens "sym option"
  | TextLatent tokens "sym option"
  | Mean1 sym
  | Normalized sym
  | MatMul sym sym
  | Exp sym
  | Randn nat nat
  | OnesTimes "nat list" rat

definition sym_ops :: "sym torch_ops" where
  "sym_ops = \<lparr>mean_dim1 = Mean1, F_normalize = Normalized, matmul = MatMul, tensor_exp = Exp\<rparr>"

definition sym_ext :: "(nat, sym) externals" where
  "sym_ext =
     \<lparr>MultimodalTransformer = (\<lambda>kw t e. (TokenLogits t e, TextLatent t e)),
      build_vision_tower = (\<lambda>d cfg q c i. (Pooled i, ImageEmbs i)),
      torch_randn = Randn,
      torch_ones_times = OnesTimes,
      config_vocab_size = (\<lambda>t. 0),
      tower_requires_grad = (\<lambda>p. True)\<rparr>"

text \<open>The object \<open>__init__\<close> builds from the example configurations below.\<close>

definition sym_model :: "(nat, sym) mammut" where
  "sym_model =
     \<lparr>text_tower = (\<lambda>t e. (TokenLogits t e, TextLatent t e)),
      visual_tower = (\<lambda>i. (Pooled i, ImageEmbs i)),
      context_length = 77,
      map_viz2txt_kv = Randn 768 512,
      logit_scale = OnesTimes [] (5 / 2),
      logit_bias = None,
      pad_id = 0,
      use_contrastive = True,
      requires_grad = (\<lambda>p. True)\<rparr>"

definition example_text_cfg :: multimodal_cfg where
  "example_text_cfg =
     \<lparr>mm_context_length = 77, mm_vocab_size = 49408, mm_width = 512, mm_heads = 8,
      mm_layers = 12, mm_ls_init_value = None, mm_cross_attn_ratio = 2,
      mm_does_full_decoding = False, mm_output_tokens = False, mm_has_mlp = True,
      hf_model_name = None\<rparr>"

definition example_vision_cfg :: clip_vision_cfg where
  "example_vision_cfg = \<lparr>v_width = 768, v_layers = 12, v_image_size = 224, v_patch_size = 32\<rparr>"

section \<open>open\_clip\_train/profiler\_simple.py\<close>

text \<open>
  What the profiler uses of a model object: the element counts (\<open>numel\<close>) of the
  parameters of the model and of its \<open>visual\<close> and \<open>text\<close> submodules, in the order
  \<open>parameters()\<close> yields them, the device the model is on, and the two attributes the
  script sets (\<open>eval()\<close> clears \<open>training\<close>).
\<close>

datatype device = Cpu | Cuda

record profiled_model =
  parameters :: "nat list"
  visual_parameters :: "nat list"
  text_parameters :: "nat list"
  device :: device
  training :: bool
  attr_use_contrastive :: bool

text \<open>
  A Python dictionary whose key order matters (the columns of the table are the keys of
  the first row) is an association list; assigning to a key replaces the value in place or
  appends the key.
\<close>

fun dict_set :: "(string \<times> 'v) list \<Rightarrow> string \<Rightarrow> 'v \<Rightarrow> (string \<times> 'v) list" where
  "dict_set [] k v = [(k, v)]"
| "dict_set ((k', v') # d) k v =
     (if k' = k then (k, v) # d else (k', v') # dict_set d k v)"

datatype 'f cell = CStr string | CInt int | CFloat 'f

type_synonym 'f row = "(string \<times> 'f cell) list"

record 'f dataframe =
  columns :: "string list"
  rows :: "'f row list"

text \<open>
  What the script writes to the terminal and to disk, and the runs of the two external
  counters (with the device the model is on when the counter runs), in the order they
  happen.
\<close>

datatype 'f event =
    Printed string
  | PrintedExc exn
  | PrintedTraceback exn
  | PrintedTable "'f dataframe"
  | PrintedList string "string list"
  | WroteCsv string "'f dataframe"
  | RanTorchCounter device
  | RanFvcore device

text \<open>
  The environment of the script: the model factory and model list of \<open>open_clip\<close>,
  whether CUDA and \<open>fvcore\<close> are there, the counters (given the model and the shapes of
  the image and text inputs they return a total or raise), the row order of
  \<open>DataFrame.sort_values\<close>, and the arithmetic of Python's floats: \<open>float(i)\<close>, float
  division, the true division of two integers and \<open>round(x, ndigits)\<close>. Floats are an
  abstract type \<open>'f\<close>; the theorems hold for every such arithmetic.
\<close>

record 'f environment =
  create_model :: "string \<Rightarrow> exn + profiled_model"
  list_models :: "string list"
  cuda_is_available :: bool
  fvcore_installed :: bool
  flop_counter_total :: "profiled_model \<Rightarrow> int list \<Rightarrow> int list \<Rightarrow> exn + int"
  fvcore_flop_total :: "profiled_model \<Rightarrow> int list \<Rightarrow> int list \<Rightarrow> exn + int"
  fvcore_activation_total :: "profiled_model \<Rightarrow> int list \<Rightarrow> int list \<Rightarrow> exn + int"
  sort_rows :: "string list \<Rightarrow> 'f row list \<Rightarrow> 'f row list"
  float_of_int :: "int \<Rightarrow> 'f"
  float_div :: "'f \<Rightarrow> 'f \<Rightarrow> 'f"
  int_truediv :: "int \<Rightarrow> int \<Rightarrow> 'f"
  py_round :: "'f \<Rightarrow> nat \<Rightarrow> 'f"

text \<open>The parsed command line, and the defaults the parser declares.\<close>

record args =
  model :: string
  results_file :: string
  profiler :: string
  batch_size :: int
  image_size :: int
  text_size :: int
  no_contrastive :: bool

definition parser_defaults :: args where
  "parser_defaults =
     \<lparr>model = [], results_file = [], profiler = ''torch'', batch_size = 1,
      image_size = 224, text_size = 77, no_contrastive = False\<rparr>"

definition profiler_choices :: "string list" where
  "profiler_choices = [''torch'', ''fvcore'']"

text \<open>
  \<open>next(model.parameters())\<close> raises \<open>StopIteration\<close> on a model without parameters;
  the device and dtype read from the first parameter are the model's.
\<close>

definition first_parameter :: "profiled_model \<Rightarrow> exn + nat" where
  "first_parameter m = (case parameters m of [] \<Rightarrow> Inl StopIteration | p # _ \<Rightarrow> Inr p)"

definition to_cpu :: "profiled_model \<Rightarrow> profiled_model" where
  "to_cpu m = m\<lparr>device := Cpu\<rparr>"

text \<open>
  \<open>profile_fvcore\<close> and \<open>profile_torch\<close>. \<open>model.to('cpu')\<close> moves the module itself,
  so the moved model is returned with the events and the outcome. The input shapes are
  \<open>(batch_size,) + image_input_size\<close> and \<open>(batch_size,) + text_input_size\<close>. A division
  by a zero \<open>batch_size\<close> raises \<open>ZeroDivisionError\<close>. \<open>profile_fvcore\<close> is only called
  with \<open>detailed=False\<close>, so its printing branch is not part of the model.
\<close>

definition profile_fvcore ::
  "'f environment \<Rightarrow> profiled_model \<Rightarrow> int list \<Rightarrow> int list \<Rightarrow> int \<Rightarrow> bool
     \<Rightarrow> profiled_model \<times> 'f event list \<times> (exn + 'f \<times> 'f)" where
  "profile_fvcore env m image_input_size text_input_size bs force_cpu =
     (let m = (if force_cpu then to_cpu m else m)
      in case first_parameter m of
           Inl e \<Rightarrow> (m, [], Inl e)
         | Inr _ \<Rightarrow>
             (case fvcore_flop_total env m (bs # image_input_size) (bs # text_input_size) of
                Inl e \<Rightarrow> (m, [RanFvcore (device m)], Inl e)
              | Inr fca \<Rightarrow>
                  if bs = 0 then (m, [RanFvcore (device m)], Inl (ZeroDivisionError ''division by zero''))
                  else
                    (case fvcore_activation_total env m (bs # image_input_size)
                            (bs # text_input_size) of
                       Inl e \<Rightarrow> (m, [RanFvcore (device m)], Inl e)
                     | Inr aca \<Rightarrow>
                         (m, [RanFvcore (device m)],
                          Inr (int_truediv env fca bs, int_truediv env aca bs)))))"

definition profile_torch ::
  "'f environment \<Rightarrow> profiled_model \<Rightarrow> int list \<Rightarrow> int list \<Rightarrow> int \<Rightarrow> bool
     \<Rightarrow> profiled_model \<times> 'f event list \<times> (exn + 'f)" where
  "profile_torch env m text_input_size image_input_size bs force_cpu =
     (let m = (if force_cpu then to_cpu m else m)
      in case first_parameter m of
           Inl e \<Rightarrow> (m, [], Inl e)
         | Inr _ \<Rightarrow>
             (case flop_counter_total env m (bs # image_input_size) (bs # text_input_size) of
                Inl e \<Rightarrow> (m, [RanTorchCounter (device m)], Inl e)
              | Inr total_flops \<Rightarrow>
                  if bs = 0 then
                    (m, [RanTorchCounter (device m)], Inl (ZeroDivisionError ''division by zero''))
                  else (m, [RanTorchCounter (device m)], Inr (int_truediv env total_flops bs))))"

definition count_params :: "nat list \<Rightarrow> int" where
  "count_params ps = int (sum_list ps)"

text \<open>\<open>round(n / 1e6, 2)\<close> on an integer and \<open>round(x / c, 2)\<close> on a float.\<close>

definition mega :: "'f environment \<Rightarrow> int \<Rightarrow> 'f" where
  "mega env n = py_round env (float_div env (float_of_int env n) (float_of_int env 1000000)) 2"

definition scaled :: "'f environment \<Rightarrow> 'f \<Rightarrow> int \<Rightarrow> 'f" where
  "scaled env x c = py_round env (float_div env x (float_of_int env c)) 2"

text \<open>
  The body of the \<open>try\<close> statement of \<open>profile_model\<close>: the three parameter counts,
  then the counter chosen by \<open>profiler\<close>. It returns the model (moved or not), the
  events, and the updated \<open>results\<close> or the exception raised.
\<close>

definition measurement_block ::
  "'f environment \<Rightarrow> string \<Rightarrow> int list \<Rightarrow> int list \<Rightarrow> int \<Rightarrow> bool \<Rightarrow> profiled_model
     \<Rightarrow> 'f row \<Rightarrow> profiled_model \<times> 'f event list \<times> (exn + 'f row)" where
  "measurement_block env prof image_input_size text_input_size bs force_cpu m results =
     (let results = dict_set results ''mparams'' (CFloat (mega env (count_params (parameters m))));
          results = dict_set results ''image_mparams''
                      (CFloat (mega env (count_params (visual_parameters m))));
          results = dict_set results ''text_mparams''
                      (CFloat (mega env (count_params (text_parameters m))))
      in if prof = ''fvcore'' then
           (case profile_fvcore env m image_input_size text_input_size bs force_cpu of
              (m, ev, Inl e) \<Rightarrow> (m, ev, Inl e)
            | (m, ev, Inr (macs, acts)) \<Rightarrow>
                (let results = dict_set results ''gmacs'' (CFloat (scaled env macs 1000000000));
                     results = dict_set results ''macts'' (CFloat (scaled env acts 1000000))
                 in (m, ev, Inr results)))
         else if prof = ''torch'' then
           (case profile_torch env m text_input_size image_input_size bs force_cpu of
              (m, ev, Inl e) \<Rightarrow> (m, ev, Inl e)
            | (m, ev, Inr total_flops) \<Rightarrow>
                (m, ev, Inr (dict_set results ''gflops''
                               (CFloat (scaled env total_flops 1000000000)))))
         else (m, [], Inr results))"

text \<open>
  The loop \<open>while retries: retries -= 1; try: ... except RuntimeError as e: print(e); raise\<close>.
  The argument is the value of \<open>retries\<close> when the condition is tested; inside the body
  it is one less, and \<open>force_cpu=not retries\<close> is true when that is zero.
  \<open>RuntimeError\<close> stands for the class and its subclasses; any other exception leaves
  the loop without being printed.
\<close>

fun retry_loop ::
  "'f environment \<Rightarrow> string \<Rightarrow> int list \<Rightarrow> int list \<Rightarrow> int \<Rightarrow> nat \<Rightarrow> profiled_model
     \<Rightarrow> 'f row \<Rightarrow> profiled_model \<times> 'f event list \<times> (exn + 'f row)" where
  "retry_loop env prof image_input_size text_input_size bs 0 m results = (m, [], Inr results)"
| "retry_loop env prof image_input_size text_input_size bs (Suc retries) m results =
     (case measurement_block env prof image_input_size text_input_size bs (retries = 0) m results of
        (m, ev, Inl e) \<Rightarrow>
          (m, ev @ (case e of RuntimeError _ \<Rightarrow> [PrintedExc e] | _ \<Rightarrow> []), Inl e)
      | (m, ev, Inr results) \<Rightarrow>
          (case retry_loop env prof image_input_size text_input_size bs retries m results of
             (m, ev', r) \<Rightarrow> (m, ev @ ev', r)))"

text \<open>
  \<open>profile_model\<close>. The value of \<open>open_clip.get_model_config(model_name)\<close> is never
  used and the call does not raise, so it is left out. \<open>model.cuda()\<close> puts the model on
  the GPU.
\<close>

definition profile_model ::
  "'f environment \<Rightarrow> string \<Rightarrow> int \<Rightarrow> string \<Rightarrow> int \<Rightarrow> int \<Rightarrow> bool
     \<Rightarrow> 'f event list \<times> (exn + 'f row)" where
  "profile_model env model_name bs prof img_size txt_size no_contr =
     (if prof \<notin> set [''torch'', ''fvcore''] then
        ([], Inl (AssertionError ''Only torch and fvcore profilers are supported''))
      else if prof = ''fvcore'' \<and> \<not> fvcore_installed env then
        ([], Inl (AssertionError ''Please install fvcore.''))
      else
        (case create_model env model_name of
           Inl e \<Rightarrow> ([], Inl e)
         | Inr m \<Rightarrow>
             (let m = m\<lparr>training := False\<rparr>;
                  m = (if no_contr then m\<lparr>attr_use_contrastive := False\<rparr> else m);
                  m = (if cuda_is_available env then m\<lparr>device := Cuda\<rparr> else m);
                  image_input_size = [3, img_size, img_size];
                  text_input_size = [txt_size];
                  results = [];
                  results = dict_set results ''model'' (CStr model_name);
                  results = dict_set results ''image_size'' (CInt (image_input_size ! 1))
              in case retry_loop env prof image_input_size text_input_size bs 2 m results of
                   (m, ev, r) \<Rightarrow> (ev, r))))"

text \<open>\<open>str(e)\<close>: the message (for a \<open>KeyError\<close>, the key between quotes).\<close>

fun exn_str :: "exn \<Rightarrow> string" where
  "exn_str (AttributeError s) = s"
| "exn_str (AssertionError s) = s"
| "exn_str (RuntimeError s) = s"
| "exn_str (IndexError s) = s"
| "exn_str (ZeroDivisionError s) = s"
| "exn_str StopIteration = []"
| "exn_str (KeyError s) = [CHR 0x27] @ s @ [CHR 0x27]"
| "exn_str (OtherException s) = s"

text \<open>\<open>s.split(c)\<close>: the pieces between the separators, \<open>['']\<close> for the empty string.\<close>

fun split_on :: "char \<Rightarrow> string \<Rightarrow> string list" where
  "split_on c [] = [[]]"
| "split_on c (x # xs) =
     (if x = c then [] # split_on c xs
      else (case split_on c xs of
              w # ws \<Rightarrow> (x # w) # ws
            | [] \<Rightarrow> [[x]]))"

text \<open>
  \<open>df.sort_values(by=...)\<close>: a \<open>KeyError\<close> for the first column of \<open>by\<close> the table does
  not have, the rows reordered otherwise.
\<close>

definition sort_values ::
  "'f environment \<Rightarrow> string list \<Rightarrow> 'f dataframe \<Rightarrow> exn + 'f dataframe" where
  "sort_values env by df =
     (case filter (\<lambda>c. c \<notin> set (columns df)) by of
        [] \<Rightarrow> Inr (df\<lparr>rows := sort_rows env by (rows df)\<rparr>)
      | c # _ \<Rightarrow> Inl (KeyError c))"

text \<open>
  The \<open>for\<close> loop of \<open>main\<close> over the model names, with the two lists it appends to.
  \<open>except Exception\<close> catches every exception of the model.
\<close>

fun main_loop ::
  "'f environment \<Rightarrow> args \<Rightarrow> string list \<Rightarrow> 'f row list \<Rightarrow> string list
     \<Rightarrow> 'f row list \<times> string list \<times> 'f event list" where
  "main_loop env a [] results models_with_errors = (results, models_with_errors, [])"
| "main_loop env a (m # ms) results models_with_errors =
     (let ev0 = [Printed (replicate 100 CHR ''=''), Printed (''Profiling '' @ m)]
      in case profile_model env m (batch_size a) (profiler a) (image_size a) (text_size a)
                (no_contrastive a) of
           (ev, Inr row) \<Rightarrow>
             (case main_loop env a ms (results @ [row]) models_with_errors of
                (rs, es, ev') \<Rightarrow> (rs, es, ev0 @ ev @ ev'))
         | (ev, Inl e) \<Rightarrow>
             (case main_loop env a ms results (models_with_errors @ [m]) of
                (rs, es, ev') \<Rightarrow>
                  (rs, es,
                   ev0 @ ev @ [Printed (''Error profiling '' @ m @ '': '' @ exn_str e),
                               PrintedTraceback e] @ ev')))"

text \<open>
  \<open>main\<close>, from the parsed arguments: the events of the run and the exception that ended
  it, if any. \<open>results[0]\<close> raises \<open>IndexError\<close> on an empty list. Writing the file is
  the event \<open>WroteCsv\<close>.
\<close>

definition main :: "'f environment \<Rightarrow> args \<Rightarrow> 'f event list \<times> exn option" where
  "main env a =
     (let parsed_model =
            (if model a = ''all'' then list_models env else split_on CHR '','' (model a))
      in case main_loop env a parsed_model [] [] of
           (results, models_with_errors, ev) \<Rightarrow>
             (case results of
                [] \<Rightarrow> (ev, Some (IndexError ''list index out of range''))
              | r0 # _ \<Rightarrow>
                  (let df = \<lparr>columns = map fst r0, rows = results\<rparr>
                   in case (if ''gmacs'' \<in> set (columns df)
                            then sort_values env [''gmacs'', ''mparams'', ''model''] df
                            else sort_values env [''gflops'', ''mparams'', ''model''] df) of
                        Inl e \<Rightarrow> (ev, Some e)
                      | Inr df \<Rightarrow>
                          (ev @ [Printed (replicate 100 CHR ''=''), Printed ''Done.'',
                                 PrintedTable df]
                              @ (if results_file a \<noteq> [] then [WroteCsv (results_file a) df]
                                 else [])
                              @ (if models_with_errors \<noteq> []
                                 then [PrintedList ''Models with errors:'' models_with_errors]
                                 else []),
                           None))))"

subsection \<open>An example environment\<close>

text \<open>
  For evaluating the script on a concrete run: one known model with three parameters, a
  GPU, no \<open>fvcore\<close>, counters whose totals depend on the device (so that the pass a
  value comes from can be told), rows left in their order, and exact rational arithmetic
  in place of floats.
\<close>

definition example_model :: profiled_model where
  "example_model =
     \<lparr>parameters = [1000000, 1500000, 500000], visual_parameters = [1000000],
      text_parameters = [1500000, 500000], device = Cpu, training = True,
      attr_use_contrastive = True\<rparr>"

definition example_env :: "rat environment" where
  "example_env =
     \<lparr>create_model = (\<lambda>n. if n = ''ViT-B-32'' then Inr example_model
                           else Inl (RuntimeError (''Model config for '' @ n @ '' not found.''))),
      list_models = [''ViT-B-32''],
      cuda_is_available = True,
      fvcore_installed = False,
      flop_counter_total =
        (\<lambda>m i t. case device m of Cuda \<Rightarrow> Inr 8000000000 | Cpu \<Rightarrow> Inr 9000000000),
      fvcore_flop_total = (\<lambda>m i t. Inl (OtherException ''fvcore'')),
      fvcore_activation_total = (\<lambda>m i t. Inl (OtherException ''fvcore'')),
      sort_rows = (\<lambda>by rs. rs),
      float_of_int = of_int,
      float_div = (\<lambda>x y. x / y),
      int_truediv = (\<lambda>i j. of_int i / of_int j),
      py_round = (\<lambda>x n. of_int (round (x * 10 ^ n)) / 10 ^ n)\<rparr>"

subsection \<open>Names used in the statements about the profiler\<close>

text \<open>
  The model \<open>profile_model\<close> holds when it enters the loop: the created model after
  \<open>eval()\<close>, the \<open>no_contrastive\<close> switch and \<open>cuda()\<close>.
\<close>

definition prepared :: "'f environment \<Rightarrow> profiled_model \<Rightarrow> bool \<Rightarrow> profiled_model" where
  "prepared env m no_contr =
     (let m = m\<lparr>training := False\<rparr>;
          m = (if no_contr then m\<lparr>attr_use_contrastive := False\<rparr> else m);
          m = (if cuda_is_available env then m\<lparr>device := Cuda\<rparr> else m)
      in m)"

text \<open>The event of one run of the counter the profiler name selects.\<close>

definition counter_event :: "string \<Rightarrow> device \<Rightarrow> 'f event" where
  "counter_event prof d = (if prof = ''fvcore'' then RanFvcore d else RanTorchCounter d)"

text \<open>
  Two variants of the example environment: the counter fails on every device, and the
  counter fails on the CPU only.
\<close>

definition oom_env :: "rat environment" where
  "oom_env =
     example_env\<lparr>flop_counter_total := (\<lambda>m i t. Inl (RuntimeError ''CUDA out of memory''))\<rparr>"

definition cpu_fail_env :: "rat environment" where
  "cpu_fail_env =
     example_env\<lparr>flop_counter_total :=
       (\<lambda>m i t. case device m of
                   Cuda \<Rightarrow> Inr 8000000000
                 | Cpu \<Rightarrow> Inl (RuntimeError ''not implemented for Half''))\<rparr>"

text \<open>
  \<open>profile_model\<close> as \<open>main\<close> calls it, the list of model names \<open>main\<close> iterates over,
  and the columns \<open>main\<close> sorts the table by.
\<close>

abbreviation profile_with :: "'f environment \<Rightarrow> args \<Rightarrow> string \<Rightarrow> 'f event list \<times> (exn + 'f row)" where
  "profile_with env a m \<equiv>
     profile_model env m (batch_size a) (profiler a) (image_size a) (text_size a)
       (no_contrastive a)"

definition parsed_models :: "'f environment \<Rightarrow> args \<Rightarrow> string list" where
  "parsed_models env a =
     (if model a = ''all'' then list_models env else split_on CHR '','' (model a))"

definition sort_columns :: "'f row \<Rightarrow> string list" where
  "sort_columns r0 =
     (if ''gmacs'' \<in> set (map fst r0) then [''gmacs'', ''mparams'', ''model'']
      else [''gflops'', ''mparams'', ''model''])"

section \<open>Properties of the encoders\<close>

text \<open>
  C1. \<open>encode_text\<close> with \<open>normalize=True\<close> and \<open>output_logits=False\<close> returns the mean
  over the token dimension of the decoder's text latent, L2-normalised along the last
  dimension; with \<open>normalize=False\<close> it returns that mean as it is.
\<close>

theorem encode_text_mean_normalized:
  "encode_text fw self txt image_embs True False =
     F_normalize fw (mean_dim1 fw (snd (text_tower self txt image_embs)))
   \<and> encode_text fw self txt image_embs False False =
     mean_dim1 fw (snd (text_tower self txt image_embs))"
  by (simp add: encode_text_def priv_encode_text_def split: prod.split)

text \<open>
  C5. \<open>encode_image\<close> with \<open>normalize=True\<close> returns the vision tower's pooled output
  L2-normalised along the last dimension; with \<open>normalize=False\<close> it returns the pooled
  output as it is.
\<close>

theorem encode_image_pooled_normalized:
  "encode_image fw self img True = F_normalize fw (fst (visual_tower self img))
   \<and> encode_image fw self img False = fst (visual_tower self img)"
  by (simp add: encode_image_def priv_encode_image_def split: prod.split)

section \<open>Properties of the gradient switch and of the forward pass\<close>

text \<open>
  C4. \<open>_use_contrastive(False)\<close> sets \<open>use_contrastive\<close> to \<open>False\<close> and sets
  \<open>requires_grad\<close> to \<open>False\<close> on exactly \<open>text.ln_final.weight\<close>,
  \<open>text.ln_final.bias\<close>, \<open>visual.proj\<close>, \<open>visual.ln_post.weight\<close>,
  \<open>visual.ln_post.bias\<close> and \<open>logit_scale\<close>, the flag of every other parameter (and
  every other attribute) staying as it was; \<open>_use_contrastive(True)\<close> sets
  \<open>use_contrastive\<close> to \<open>True\<close> and changes nothing else.
\<close>

theorem use_contrastive_frame:
  "priv_use_contrastive self False =
     self\<lparr>use_contrastive := False,
          requires_grad := (\<lambda>p.
            if p \<in> {''text.ln_final.weight'', ''text.ln_final.bias'', ''visual.proj'',
                     ''visual.ln_post.weight'', ''visual.ln_post.bias'', ''logit_scale''}
            then False else requires_grad self p)\<rparr>
   \<and> priv_use_contrastive self True = self\<lparr>use_contrastive := True\<rparr>"
  by (auto simp add: priv_use_contrastive_def set_requires_grad_def fun_eq_iff)

text \<open>
  C3. In the generative branch of \<open>_forward\<close> (\<open>contrastive=False\<close>) the entry
  \<open>labels\<close> is the text with its first token column dropped; the decoder receives the
  text with its last token column dropped when \<open>is_training\<close> is true and the whole
  text when it is false (its logits are stored under \<open>logits\<close>).
\<close>

theorem forward_generative_shift:
  "priv_forward fw self txt out image_embs False is_training ''labels''
     = Some (IntTensor (map (drop 1) txt))
   \<and> priv_forward fw self txt out image_embs False True ''logits''
     = Some (FloatTensor (fst (text_tower self (map butlast txt)
          (map_option (\<lambda>e. matmul fw e (map_viz2txt_kv self)) image_embs))))
   \<and> priv_forward fw self txt out image_embs False False ''logits''
     = Some (FloatTensor (fst (text_tower self txt
          (map_option (\<lambda>e. matmul fw e (map_viz2txt_kv self)) image_embs))))"
  by (cases image_embs)
     (simp_all add: priv_forward_def encode_text_def priv_encode_text_def Let_def
        split: prod.split)

text \<open>
  C8. The dictionary \<open>forward\<close> returns always holds \<open>logit_scale\<close>, the exponential
  of the parameter. Without a text its keys are exactly \<open>logit_scale\<close> and
  \<open>image_features\<close>. With a text its keys are those two and \<open>text_features\<close>,
  \<open>labels\<close> and \<open>logits\<close>, and \<open>text_features\<close> is a tensor (the contrastive text
  embedding) when \<open>is_training\<close> and \<open>use_contrastive\<close> are both true and \<open>None\<close>
  otherwise.
\<close>

theorem forward_keys:
  "forward fw self img txt il ie tr ''logit_scale''
     = Some (FloatTensor (tensor_exp fw (logit_scale self)))
   \<and> dom (forward fw self img None il ie tr) = {''logit_scale'', ''image_features''}
   \<and> dom (forward fw self img (Some t) il ie tr)
       = {''logit_scale'', ''image_features'', ''text_features'', ''labels'', ''logits''}
   \<and> forward fw self img (Some t) il ie tr ''text_features''
       = Some (if tr \<and> use_contrastive self
               then FloatTensor (encode_text fw self t None True False) else PyNone)"
  by (auto simp add: forward_def priv_forward_def Let_def split: option.split prod.split)

section \<open>Construction with a Hugging Face text model name\<close>

text \<open>
  C9. Constructing \<open>MaMMUT\<close> with a text configuration whose \<open>hf_model_name\<close> is not
  \<open>None\<close> always raises \<open>AttributeError\<close>: \<open>self.text\<close> is read before it is
  assigned.
\<close>

theorem init_hf_model_name_raises:
  "hf_model_name text_cfg \<noteq> None \<Longrightarrow>
   init ext embed_dim text_cfg vision_cfg quick_gelu cast_dtype pad init_logit_scale
        init_logit_bias nonscalar_logit_scale
     = Inl (AttributeError ''MaMMUT object has no attribute text'')"
  by (simp add: init_def getattr_text_def)

theorem init_hf_model_name_raises_witness:
  "hf_model_name (example_text_cfg\<lparr>hf_model_name := Some ''roberta-base''\<rparr>) \<noteq> None
   \<and> (init sym_ext 512 (example_text_cfg\<lparr>hf_model_name := Some ''roberta-base''\<rparr>)
         example_vision_cfg False None 0 (5/2) None False :: exn + (nat, sym) mammut)
     = Inl (AttributeError ''MaMMUT object has no attribute text'')"
  using init_hf_model_name_raises
    [of "example_text_cfg\<lparr>hf_model_name := Some ''roberta-base''\<rparr>" sym_ext 512
        example_vision_cfg False None 0 "5/2" None False]
  by simp

subsection \<open>Runs on the symbolic framework\<close>

text \<open>
  Without \<open>hf_model_name\<close> the construction succeeds. A training-mode forward pass of
  the object on image 7 and two rows of three tokens, then an inference pass with the
  contrastive head switched off.
\<close>

lemma init_example:
  "init sym_ext 512 example_text_cfg example_vision_cfg False None 0 (5 / 2) None False
     = Inr sym_model"
  by (simp add: init_def sym_ext_def example_text_cfg_def example_vision_cfg_def sym_model_def
        build_multimodal_decoder_tower_def Let_def fun_eq_iff)

lemma forward_example:
  "forward sym_ops sym_model (Some 7) (Some [[1, 2, 3], [4, 5, 6]]) None None True =
     [''logit_scale'' \<mapsto> FloatTensor (Exp (OnesTimes [] (5 / 2))),
      ''image_features'' \<mapsto> FloatTensor (Normalized (Pooled 7)),
      ''text_features'' \<mapsto>
         FloatTensor (Normalized (Mean1 (TextLatent [[1, 2, 3], [4, 5, 6]] None))),
      ''labels'' \<mapsto> IntTensor [[2, 3], [5, 6]],
      ''logits'' \<mapsto>
         FloatTensor (TokenLogits [[1, 2], [4, 5]]
                        (Some (MatMul (ImageEmbs 7) (Randn 768 512))))]"
  by (simp add: forward_def priv_forward_def priv_encode_image_def encode_text_def
        priv_encode_text_def sym_ops_def sym_model_def Let_def)

lemma forward_example_eval:
  "forward sym_ops (priv_use_contrastive sym_model False) (Some 7) (Some [[1, 2, 3]]) None None
     False =
     [''logit_scale'' \<mapsto> FloatTensor (Exp (OnesTimes [] (5 / 2))),
      ''image_features'' \<mapsto> FloatTensor (Normalized (Pooled 7)),
      ''text_features'' \<mapsto> PyNone,
      ''labels'' \<mapsto> IntTensor [[2, 3]],
      ''logits'' \<mapsto>
         FloatTensor (TokenLogits [[1, 2, 3]]
                        (Some (MatMul (ImageEmbs 7) (Randn 768 512))))]"
  by (simp add: forward_def priv_forward_def priv_encode_image_def encode_text_def
        priv_encode_text_def sym_ops_def sym_model_def priv_use_contrastive_def
        set_requires_grad_def Let_def)

section \<open>Properties of the profiler\<close>

subsection \<open>The measurement block and the loop\<close>

lemma map_of_dict_set: "map_of (dict_set d k v) = (map_of d)(k \<mapsto> v)"
  by (induction d k v rule: dict_set.induct) auto

lemma to_cpu_fields:
  "parameters (to_cpu m) = parameters m"
  "visual_parameters (to_cpu m) = visual_parameters m"
  "text_parameters (to_cpu m) = text_parameters m"
  "device (to_cpu m) = Cpu"
  by (simp_all add: to_cpu_def)

lemma prepared_fields:
  "parameters (prepared env m nc) = parameters m"
  "visual_parameters (prepared env m nc) = visual_parameters m"
  "text_parameters (prepared env m nc) = text_parameters m"
  by (simp_all add: prepared_def Let_def)

lemma profile_torch_model:
  "profile_torch env m tis iis bs fc = (m', ev, r) \<Longrightarrow> m' = (if fc then to_cpu m else m)"
  by (auto simp add: profile_torch_def Let_def split: sum.splits if_splits)

lemma profile_fvcore_model:
  "profile_fvcore env m iis tis bs fc = (m', ev, r) \<Longrightarrow> m' = (if fc then to_cpu m else m)"
  by (auto simp add: profile_fvcore_def Let_def split: sum.splits if_splits)

lemma measurement_block_model:
  assumes "measurement_block env prof iis tis bs fc m r = (m', ev, res)"
  shows "m' = m \<or> m' = to_cpu m"
  using assms
  by (auto simp add: measurement_block_def Let_def split: sum.splits if_splits prod.splits
      dest: profile_torch_model profile_fvcore_model)

lemma measurement_block_force_cpu:
  assumes "measurement_block env prof iis tis bs True m r = (m', ev, res)"
    and "prof = ''torch'' \<or> prof = ''fvcore''"
  shows "device m' = Cpu"
  using assms
  by (auto simp add: measurement_block_def Let_def to_cpu_fields
      split: sum.splits if_splits prod.splits
      dest!: profile_torch_model profile_fvcore_model)

lemma measurement_block_counts:
  assumes "measurement_block env prof iis tis bs fc m r = (m', ev, Inr r')"
  shows "map_of r' ''mparams'' = Some (CFloat (mega env (count_params (parameters m))))
       \<and> map_of r' ''image_mparams'' = Some (CFloat (mega env (count_params (visual_parameters m))))
       \<and> map_of r' ''text_mparams'' = Some (CFloat (mega env (count_params (text_parameters m))))"
  using assms
  by (auto simp add: measurement_block_def Let_def map_of_dict_set
      split: sum.splits if_splits prod.splits)

lemma retry_loop_counts:
  assumes "retry_loop env prof iis tis bs (Suc n) m r = (m', ev, Inr r')"
  shows "map_of r' ''mparams'' = Some (CFloat (mega env (count_params (parameters m))))
       \<and> map_of r' ''image_mparams'' = Some (CFloat (mega env (count_params (visual_parameters m))))
       \<and> map_of r' ''text_mparams'' = Some (CFloat (mega env (count_params (text_parameters m))))"
  using assms
proof (induction n arbitrary: m r ev)
  case 0
  then show ?case
    by (auto split: prod.splits sum.splits dest: measurement_block_counts)
next
  case (Suc n)
  from Suc.prems obtain m1 ev1 r1 where
    b: "measurement_block env prof iis tis bs False m r = (m1, ev1, Inr r1)"
    by (auto split: prod.splits sum.splits)
  with Suc.prems obtain ev2 where
    l: "retry_loop env prof iis tis bs (Suc n) m1 r1 = (m', ev2, Inr r')"
    by (auto split: prod.splits sum.splits)
  from measurement_block_model [OF b] have
    "parameters m1 = parameters m" "visual_parameters m1 = visual_parameters m"
    "text_parameters m1 = text_parameters m"
    by (auto simp add: to_cpu_fields)
  with Suc.IH [OF l] show ?case by simp
qed

lemma measurement_block_success:
  assumes "measurement_block env prof iis tis bs fc m r = (m', ev, Inr r')"
    and "prof = ''torch'' \<or> prof = ''fvcore''"
  shows "m' = (if fc then to_cpu m else m) \<and> ev = [counter_event prof (device m')]"
  using assms
  by (auto simp add: measurement_block_def profile_torch_def profile_fvcore_def Let_def
        counter_event_def
      split: sum.splits if_splits prod.splits)

lemma measurement_block_keys:
  assumes "measurement_block env prof iis tis bs fc m r = (m', ev, Inr r')"
    and "prof = ''torch'' \<or> prof = ''fvcore''"
  shows "dom (map_of r) \<subseteq> dom (map_of r') \<and> ''mparams'' \<in> dom (map_of r')
       \<and> (''gmacs'' \<in> dom (map_of r') \<or> ''gflops'' \<in> dom (map_of r'))"
  using assms
  by (auto simp add: measurement_block_def Let_def map_of_dict_set
      split: sum.splits if_splits prod.splits)

lemma retry_loop_two:
  "retry_loop env prof iis tis bs 2 m r =
     (case measurement_block env prof iis tis bs False m r of
        (m1, ev1, Inl e) \<Rightarrow>
          (m1, ev1 @ (case e of RuntimeError _ \<Rightarrow> [PrintedExc e] | _ \<Rightarrow> []), Inl e)
      | (m1, ev1, Inr r1) \<Rightarrow>
          (case measurement_block env prof iis tis bs True m1 r1 of
             (m2, ev2, Inl e) \<Rightarrow>
               (m2, ev1 @ ev2 @ (case e of RuntimeError _ \<Rightarrow> [PrintedExc e] | _ \<Rightarrow> []), Inl e)
           | (m2, ev2, Inr r2) \<Rightarrow> (m2, ev1 @ ev2, Inr r2)))"
  by (simp add: numeral_2_eq_2 split: prod.splits sum.splits)

lemma profile_model_loaded:
  assumes "prof = ''torch'' \<or> prof = ''fvcore'' \<and> fvcore_installed env"
    and "create_model env name = Inr m0"
  shows "profile_model env name bs prof isz tsz nc =
     (case retry_loop env prof [3, isz, isz] [tsz] bs 2 (prepared env m0 nc)
             [(''model'', CStr name), (''image_size'', CInt isz)] of
        (m, ev, r) \<Rightarrow> (ev, r))"
  using assms by (auto simp add: profile_model_def prepared_def Let_def split: prod.splits)

text \<open>The equations that evaluate the profiler in the example environments.\<close>

lemmas example_defs =
  example_env_def example_model_def oom_env_def cpu_fail_env_def prepared_def
  profile_model_def measurement_block_def profile_torch_def profile_fvcore_def
  first_parameter_def to_cpu_def mega_def scaled_def count_params_def Let_def numeral_2_eq_2

text \<open>
  C7. For every successfully profiled model, \<open>mparams\<close> is the sum of the element
  counts of all the model's parameters, divided by \<open>1e6\<close> and rounded to two places,
  and \<open>image_mparams\<close> and \<open>text_mparams\<close> are the same figure for the parameters of
  the \<open>visual\<close> and \<open>text\<close> submodules.
\<close>

theorem profile_model_param_counts:
  assumes "profile_model env name bs prof isz tsz nc = (ev, Inr row)"
  shows "\<exists>m. create_model env name = Inr m
    \<and> map_of row ''mparams'' = Some (CFloat
        (py_round env (float_div env (float_of_int env (int (sum_list (parameters m))))
           (float_of_int env 1000000)) 2))
    \<and> map_of row ''image_mparams'' = Some (CFloat
        (py_round env (float_div env (float_of_int env (int (sum_list (visual_parameters m))))
           (float_of_int env 1000000)) 2))
    \<and> map_of row ''text_mparams'' = Some (CFloat
        (py_round env (float_div env (float_of_int env (int (sum_list (text_parameters m))))
           (float_of_int env 1000000)) 2))"
proof -
  from assms obtain m where c: "create_model env name = Inr m"
    by (auto simp add: profile_model_def split: if_splits sum.splits)
  with assms obtain m' where
    "retry_loop env prof [3, isz, isz] [tsz] bs (Suc (Suc 0)) (prepared env m nc)
       [(''model'', CStr name), (''image_size'', CInt isz)] = (m', ev, Inr row)"
    by (auto simp add: profile_model_def prepared_def Let_def numeral_2_eq_2
        split: if_splits prod.splits)
  from retry_loop_counts [OF this] c show ?thesis
    by (auto simp add: prepared_fields mega_def count_params_def)
qed

theorem profile_model_param_counts_witness:
  "profile_model example_env ''ViT-B-32'' 1 ''torch'' 224 77 False =
     ([RanTorchCounter Cuda, RanTorchCounter Cpu],
      Inr [(''model'', CStr ''ViT-B-32''), (''image_size'', CInt 224),
           (''mparams'', CFloat 3), (''image_mparams'', CFloat 1),
           (''text_mparams'', CFloat 2), (''gflops'', CFloat 9)])
   \<and> (\<exists>m. create_model example_env ''ViT-B-32'' = Inr m
        \<and> sum_list (parameters m) = 3000000
        \<and> sum_list (visual_parameters m) = 1000000
        \<and> sum_list (text_parameters m) = 2000000
        \<and> py_round example_env (float_div example_env
             (float_of_int example_env (int (sum_list (parameters m))))
             (float_of_int example_env 1000000)) 2 = 3
        \<and> py_round example_env (float_div example_env
             (float_of_int example_env (int (sum_list (visual_parameters m))))
             (float_of_int example_env 1000000)) 2 = 1
        \<and> py_round example_env (float_div example_env
             (float_of_int example_env (int (sum_list (text_parameters m))))
             (float_of_int example_env 1000000)) 2 = 2)"
proof -
  have e: "profile_model example_env ''ViT-B-32'' 1 ''torch'' 224 77 False =
     ([RanTorchCounter Cuda, RanTorchCounter Cpu],
      Inr [(''model'', CStr ''ViT-B-32''), (''image_size'', CInt 224),
           (''mparams'', CFloat 3), (''image_mparams'', CFloat 1),
           (''text_mparams'', CFloat 2), (''gflops'', CFloat (9::rat))])"
    by (simp add: example_defs)
  from profile_model_param_counts [OF e] obtain m where
    m: "create_model example_env ''ViT-B-32'' = Inr m"
    and c: "map_of [(''model'', CStr ''ViT-B-32''), (''image_size'', CInt 224),
           (''mparams'', CFloat 3), (''image_mparams'', CFloat 1),
           (''text_mparams'', CFloat 2), (''gflops'', CFloat (9::rat))] ''mparams'' = Some (CFloat
        (py_round example_env (float_div example_env (float_of_int example_env (int (sum_list (parameters m))))
           (float_of_int example_env 1000000)) 2))"
      "map_of [(''model'', CStr ''ViT-B-32''), (''image_size'', CInt 224),
           (''mparams'', CFloat 3), (''image_mparams'', CFloat 1),
           (''text_mparams'', CFloat 2), (''gflops'', CFloat (9::rat))] ''image_mparams'' = Some (CFloat
        (py_round example_env (float_div example_env (float_of_int example_env (int (sum_list (visual_parameters m))))
           (float_of_int example_env 1000000)) 2))"
      "map_of [(''model'', CStr ''ViT-B-32''), (''image_size'', CInt 224),
           (''mparams'', CFloat 3), (''image_mparams'', CFloat 1),
           (''text_mparams'', CFloat 2), (''gflops'', CFloat (9::rat))] ''text_mparams'' = Some (CFloat
        (py_round example_env (float_div example_env (float_of_int example_env (int (sum_list (text_parameters m))))
           (float_of_int example_env 1000000)) 2))"
    by blast
  from m have "m = example_model" by (simp add: example_env_def)
  then have s: "sum_list (parameters m) = 3000000" "sum_list (visual_parameters m) = 1000000"
    "sum_list (text_parameters m) = 2000000"
    by (simp_all add: example_model_def)
  from c have "py_round example_env (float_div example_env
             (float_of_int example_env (int (sum_list (parameters m))))
             (float_of_int example_env 1000000)) 2 = 3"
     "py_round example_env (float_div example_env
             (float_of_int example_env (int (sum_list (visual_parameters m))))
             (float_of_int example_env 1000000)) 2 = 1"
     "py_round example_env (float_div example_env
             (float_of_int example_env (int (sum_list (text_parameters m))))
             (float_of_int example_env 1000000)) 2 = 2"
    by simp_all
  with e m s show ?thesis by blast
qed

text \<open>
  C10. In \<open>profile_model\<close>, when no exception is raised the measurement block runs
  twice, the second time with \<open>force_cpu=True\<close> (the model is moved to the CPU), and
  the row returned is the one of the second pass; a \<open>RuntimeError\<close> raised by either
  pass is printed and raised again at once, no further pass being made.
\<close>

theorem profile_model_two_passes:
  assumes "prof = ''torch'' \<or> prof = ''fvcore'' \<and> fvcore_installed env"
    and "create_model env name = Inr m0"
  shows
    "(measurement_block env prof [3, isz, isz] [tsz] bs False (prepared env m0 nc)
        [(''model'', CStr name), (''image_size'', CInt isz)] = (m1, ev1, Inr r1)
      \<longrightarrow> measurement_block env prof [3, isz, isz] [tsz] bs True m1 r1 = (m2, ev2, Inr r2)
      \<longrightarrow> profile_model env name bs prof isz tsz nc = (ev1 @ ev2, Inr r2)
          \<and> ev1 @ ev2 = [counter_event prof (device (prepared env m0 nc)), counter_event prof Cpu]
          \<and> device m2 = Cpu)
   \<and> (measurement_block env prof [3, isz, isz] [tsz] bs False (prepared env m0 nc)
        [(''model'', CStr name), (''image_size'', CInt isz)] = (m1, ev1, Inl (RuntimeError s))
      \<longrightarrow> profile_model env name bs prof isz tsz nc
            = (ev1 @ [PrintedExc (RuntimeError s)], Inl (RuntimeError s)))
   \<and> (measurement_block env prof [3, isz, isz] [tsz] bs False (prepared env m0 nc)
        [(''model'', CStr name), (''image_size'', CInt isz)] = (m1, ev1, Inr r1)
      \<longrightarrow> measurement_block env prof [3, isz, isz] [tsz] bs True m1 r1
            = (m2, ev2, Inl (RuntimeError s))
      \<longrightarrow> profile_model env name bs prof isz tsz nc
            = (ev1 @ ev2 @ [PrintedExc (RuntimeError s)], Inl (RuntimeError s)))"
proof -
  have p: "prof = ''torch'' \<or> prof = ''fvcore''"
    using assms(1) by auto
  note pm = profile_model_loaded [OF assms, of bs isz tsz nc]
  show ?thesis
  proof (intro conjI impI)
    assume b1: "measurement_block env prof [3, isz, isz] [tsz] bs False (prepared env m0 nc)
        [(''model'', CStr name), (''image_size'', CInt isz)] = (m1, ev1, Inr r1)"
      and b2: "measurement_block env prof [3, isz, isz] [tsz] bs True m1 r1 = (m2, ev2, Inr r2)"
    show "profile_model env name bs prof isz tsz nc = (ev1 @ ev2, Inr r2)"
      by (simp add: pm retry_loop_two b1 b2)
    from measurement_block_success [OF b1 p] measurement_block_success [OF b2 p]
    show "ev1 @ ev2 = [counter_event prof (device (prepared env m0 nc)), counter_event prof Cpu]"
      by (simp add: to_cpu_fields)
    from measurement_block_success [OF b2 p] show "device m2 = Cpu"
      by (simp add: to_cpu_fields)
  next
    assume "measurement_block env prof [3, isz, isz] [tsz] bs False (prepared env m0 nc)
        [(''model'', CStr name), (''image_size'', CInt isz)] = (m1, ev1, Inl (RuntimeError s))"
    then show "profile_model env name bs prof isz tsz nc
            = (ev1 @ [PrintedExc (RuntimeError s)], Inl (RuntimeError s))"
      by (simp add: pm retry_loop_two)
  next
    assume "measurement_block env prof [3, isz, isz] [tsz] bs False (prepared env m0 nc)
        [(''model'', CStr name), (''image_size'', CInt isz)] = (m1, ev1, Inr r1)"
      and "measurement_block env prof [3, isz, isz] [tsz] bs True m1 r1
            = (m2, ev2, Inl (RuntimeError s))"
    then show "profile_model env name bs prof isz tsz nc
            = (ev1 @ ev2 @ [PrintedExc (RuntimeError s)], Inl (RuntimeError s))"
      by (simp add: pm retry_loop_two)
  qed
qed

theorem profile_model_two_passes_witness:
  "profile_model example_env ''ViT-B-32'' 1 ''torch'' 224 77 False =
     ([RanTorchCounter Cuda, RanTorchCounter Cpu],
      Inr [(''model'', CStr ''ViT-B-32''), (''image_size'', CInt 224),
           (''mparams'', CFloat 3), (''image_mparams'', CFloat 1),
           (''text_mparams'', CFloat 2), (''gflops'', CFloat 9)])
   \<and> profile_model oom_env ''ViT-B-32'' 1 ''torch'' 224 77 False =
     ([RanTorchCounter Cuda, PrintedExc (RuntimeError ''CUDA out of memory'')],
      Inl (RuntimeError ''CUDA out of memory''))
   \<and> profile_model cpu_fail_env ''ViT-B-32'' 1 ''torch'' 224 77 False =
     ([RanTorchCounter Cuda, RanTorchCounter Cpu,
       PrintedExc (RuntimeError ''not implemented for Half'')],
      Inl (RuntimeError ''not implemented for Half''))"
proof (intro conjI)
  let ?r0 = "[(''model'', CStr ''ViT-B-32''), (''image_size'', CInt 224)] :: rat row"
  let ?r1 = "[(''model'', CStr ''ViT-B-32''), (''image_size'', CInt 224),
           (''mparams'', CFloat 3), (''image_mparams'', CFloat 1),
           (''text_mparams'', CFloat 2), (''gflops'', CFloat 8)] :: rat row"
  let ?r2 = "[(''model'', CStr ''ViT-B-32''), (''image_size'', CInt 224),
           (''mparams'', CFloat 3), (''image_mparams'', CFloat 1),
           (''text_mparams'', CFloat 2), (''gflops'', CFloat 9)] :: rat row"
  let ?m = "prepared example_env example_model False"
  have c: "create_model example_env ''ViT-B-32'' = Inr example_model"
    by (simp add: example_env_def)
  have b1: "measurement_block example_env ''torch'' [3, 224, 224] [77] 1 False ?m ?r0
      = (?m, [RanTorchCounter Cuda], Inr ?r1)"
    by (simp add: example_defs)
  have b2: "measurement_block example_env ''torch'' [3, 224, 224] [77] 1 True ?m ?r1
      = (to_cpu ?m, [RanTorchCounter Cpu], Inr ?r2)"
    by (simp add: example_defs)
  from profile_model_two_passes [OF _ c, of "''torch''" 224 77 1 False ?m "[RanTorchCounter Cuda]"
      ?r1 "to_cpu ?m" "[RanTorchCounter Cpu]" ?r2] b1 b2
  show "profile_model example_env ''ViT-B-32'' 1 ''torch'' 224 77 False =
     ([RanTorchCounter Cuda, RanTorchCounter Cpu], Inr ?r2)"
    by simp
next
  let ?r0 = "[(''model'', CStr ''ViT-B-32''), (''image_size'', CInt 224)] :: rat row"
  let ?m = "prepared oom_env example_model False"
  have c: "create_model oom_env ''ViT-B-32'' = Inr example_model"
    by (simp add: oom_env_def example_env_def)
  have b1: "measurement_block oom_env ''torch'' [3, 224, 224] [77] 1 False ?m ?r0
      = (?m, [RanTorchCounter Cuda], Inl (RuntimeError ''CUDA out of memory''))"
    by (simp add: example_defs)
  from profile_model_two_passes [OF _ c, of "''torch''" 224 77 1 False ?m "[RanTorchCounter Cuda]"
      _ _ _ _ "''CUDA out of memory''"] b1
  show "profile_model oom_env ''ViT-B-32'' 1 ''torch'' 224 77 False =
     ([RanTorchCounter Cuda, PrintedExc (RuntimeError ''CUDA out of memory'')],
      Inl (RuntimeError ''CUDA out of memory''))"
    by simp
next
  let ?r0 = "[(''model'', CStr ''ViT-B-32''), (''image_size'', CInt 224)] :: rat row"
  let ?r1 = "[(''model'', CStr ''ViT-B-32''), (''image_size'', CInt 224),
           (''mparams'', CFloat 3), (''image_mparams'', CFloat 1),
           (''text_mparams'', CFloat 2), (''gflops'', CFloat 8)] :: rat row"
  let ?m = "prepared cpu_fail_env example_model False"
  have c: "create_model cpu_fail_env ''ViT-B-32'' = Inr example_model"
    by (simp add: cpu_fail_env_def example_env_def)
  have b1: "measurement_block cpu_fail_env ''torch'' [3, 224, 224] [77] 1 False ?m ?r0
      = (?m, [RanTorchCounter Cuda], Inr ?r1)"
    by (simp add: example_defs)
  have b2: "measurement_block cpu_fail_env ''torch'' [3, 224, 224] [77] 1 True ?m ?r1
      = (to_cpu ?m, [RanTorchCounter Cpu], Inl (RuntimeError ''not implemented for Half''))"
    by (simp add: example_defs)
  from profile_model_two_passes [OF _ c, of "''torch''" 224 77 1 False ?m "[RanTorchCounter Cuda]"
      ?r1 "to_cpu ?m" "[RanTorchCounter Cpu]" _ "''not implemented for Half''"] b1 b2
  show "profile_model cpu_fail_env ''ViT-B-32'' 1 ''torch'' 224 77 False =
     ([RanTorchCounter Cuda, RanTorchCounter Cpu,
       PrintedExc (RuntimeError ''not implemented for Half'')],
      Inl (RuntimeError ''not implemented for Half''))"
    by simp
qed

subsection \<open>The command-line run\<close>

text \<open>
  The loop of \<open>main\<close> collects the names of the models whose profiling raised, in
  order, and the rows of the others.
\<close>

lemma main_loop_lists:
  assumes "main_loop env a ms rs es = (rs', es', ev)"
  shows "es' = es @ filter (\<lambda>m. isl (snd (profile_with env a m))) ms
       \<and> rs' = rs @ map (\<lambda>m. projr (snd (profile_with env a m)))
                      (filter (\<lambda>m. \<not> isl (snd (profile_with env a m))) ms)"
  using assms
proof (induction ms arbitrary: rs es rs' es' ev)
  case Nil
  then show ?case by simp
next
  case (Cons m ms)
  obtain pev r where p: "profile_with env a m = (pev, r)"
    by (cases "profile_with env a m")
  show ?case
  proof (cases r)
    case (Inl e)
    with p Cons.prems obtain ev' where
      "main_loop env a ms rs (es @ [m]) = (rs', es', ev')"
      by (auto simp add: Let_def split: prod.splits)
    from Cons.IH [OF this] p Inl show ?thesis by simp
  next
    case (Inr row)
    with p Cons.prems obtain ev' where
      "main_loop env a ms (rs @ [row]) es = (rs', es', ev')"
      by (auto simp add: Let_def split: prod.splits)
    from Cons.IH [OF this] p Inr show ?thesis by simp
  qed
qed

text \<open>A row \<open>profile_model\<close> returns has the columns \<open>main\<close> sorts by.\<close>

lemma profile_model_keys:
  assumes "profile_model env name bs prof isz tsz nc = (ev, Inr row)"
  shows "''model'' \<in> dom (map_of row) \<and> ''mparams'' \<in> dom (map_of row)
       \<and> (''gmacs'' \<in> dom (map_of row) \<or> ''gflops'' \<in> dom (map_of row))"
proof -
  from assms have p: "prof = ''torch'' \<or> prof = ''fvcore'' \<and> fvcore_installed env"
    by (auto simp add: profile_model_def split: if_splits)
  then have p': "prof = ''torch'' \<or> prof = ''fvcore''" by auto
  from assms obtain m0 where c: "create_model env name = Inr m0"
    by (auto simp add: profile_model_def split: if_splits sum.splits)
  let ?r0 = "[(''model'', CStr name), (''image_size'', CInt isz)] :: 'a row"
  from assms profile_model_loaded [OF p c, of bs isz tsz nc]
  obtain m' where l: "retry_loop env prof [3, isz, isz] [tsz] bs 2 (prepared env m0 nc) ?r0
      = (m', ev, Inr row)"
    by (auto split: prod.splits)
  then obtain m1 ev1 r1 m2 ev2 where
    b1: "measurement_block env prof [3, isz, isz] [tsz] bs False (prepared env m0 nc) ?r0
          = (m1, ev1, Inr r1)"
    and b2: "measurement_block env prof [3, isz, isz] [tsz] bs True m1 r1 = (m2, ev2, Inr row)"
    by (auto simp add: retry_loop_two split: prod.splits sum.splits)
  from measurement_block_keys [OF b1 p'] have "''model'' \<in> dom (map_of r1)"
    by auto
  with measurement_block_keys [OF b2 p'] show ?thesis by auto
qed

lemma sort_values_present:
  assumes "set by \<subseteq> set (columns df)"
  shows "sort_values env by df = Inr (df\<lparr>rows := sort_rows env by (rows df)\<rparr>)"
proof -
  from assms have "filter (\<lambda>c. c \<notin> set (columns df)) by = []"
    by (auto simp add: filter_empty_conv)
  then show ?thesis by (simp add: sort_values_def)
qed

text \<open>
  When at least one model is profiled successfully, \<open>main\<close> ends normally: it prints
  the sorted table, writes it to the results file exactly when the file name is not empty,
  and prints the list of the failing models exactly when there is one.
\<close>

lemma main_with_a_row:
  assumes ok: "\<not> isl (snd (profile_with env a m))" and m: "m \<in> set (parsed_models env a)"
  shows "\<exists>ev r0 rs df.
     fst (main_loop env a (parsed_models env a) [] []) = r0 # rs
   \<and> df = \<lparr>columns = map fst r0, rows = sort_rows env (sort_columns r0) (r0 # rs)\<rparr>
   \<and> main env a =
       (ev @ [Printed (replicate 100 CHR ''=''), Printed ''Done.'', PrintedTable df]
           @ (if results_file a \<noteq> [] then [WroteCsv (results_file a) df] else [])
           @ (if filter (\<lambda>m. isl (snd (profile_with env a m))) (parsed_models env a) \<noteq> []
              then [PrintedList ''Models with errors:''
                      (filter (\<lambda>m. isl (snd (profile_with env a m))) (parsed_models env a))]
              else []),
        None)"
proof -
  let ?ms = "parsed_models env a"
  obtain rs' es' ev where l: "main_loop env a ?ms [] [] = (rs', es', ev)"
    by (cases "main_loop env a ?ms [] []") auto
  note ll = main_loop_lists [OF l]
  from ok m have "filter (\<lambda>m. \<not> isl (snd (profile_with env a m))) ?ms \<noteq> []"
    by (auto simp add: filter_empty_conv)
  with ll obtain r0 rs where rs': "rs' = r0 # rs"
    by (cases rs') auto
  from ll rs' have "r0 \<in> set (map (\<lambda>m. projr (snd (profile_with env a m)))
                      (filter (\<lambda>m. \<not> isl (snd (profile_with env a m))) ?ms))"
    by (metis append_Nil list.set_intros(1))
  then obtain m' where m': "\<not> isl (snd (profile_with env a m'))"
    and r0: "r0 = projr (snd (profile_with env a m'))"
    by auto
  then obtain pev where "profile_with env a m' = (pev, Inr r0)"
    by (cases "profile_with env a m'") (auto simp add: isl_def split: sum.splits)
  from profile_model_keys [OF this] have k:
    "''model'' \<in> set (map fst r0)" "''mparams'' \<in> set (map fst r0)"
    "''gmacs'' \<in> set (map fst r0) \<or> ''gflops'' \<in> set (map fst r0)"
    by (auto simp add: dom_map_of_conv_image_fst)
  let ?df0 = "\<lparr>columns = map fst r0, rows = r0 # rs\<rparr> :: 'a dataframe"
  have s: "(if ''gmacs'' \<in> set (columns ?df0)
            then sort_values env [''gmacs'', ''mparams'', ''model''] ?df0
            else sort_values env [''gflops'', ''mparams'', ''model''] ?df0)
         = Inr \<lparr>columns = map fst r0, rows = sort_rows env (sort_columns r0) (r0 # rs)\<rparr>"
  proof (cases "''gmacs'' \<in> set (map fst r0)")
    case True
    with k have "set [''gmacs'', ''mparams'', ''model''] \<subseteq> set (columns ?df0)"
      by simp
    from sort_values_present [OF this] True show ?thesis
      by (simp add: sort_columns_def)
  next
    case False
    with k have "set [''gflops'', ''mparams'', ''model''] \<subseteq> set (columns ?df0)"
      by simp
    from sort_values_present [OF this] False show ?thesis
      by (simp add: sort_columns_def)
  qed
  from l rs' ll s show ?thesis
    by (simp add: main_def parsed_models_def [symmetric] Let_def)
qed

text \<open>
  C2. On a run in which the profiling of every model raises, the exceptions are caught and
  their tracebacks printed, but \<open>main\<close> then ends with the \<open>IndexError\<close> of
  \<open>results[0]\<close>: the list of the failing models is never printed. Here for the two
  unknown models \<open>bogus\<close> and \<open>missing\<close>.
\<close>

theorem main_every_model_fails:
  "main example_env (parser_defaults\<lparr>model := ''bogus,missing''\<rparr>) =
     ([Printed (replicate 100 CHR ''=''), Printed ''Profiling bogus'',
       Printed ''Error profiling bogus: Model config for bogus not found.'',
       PrintedTraceback (RuntimeError ''Model config for bogus not found.''),
       Printed (replicate 100 CHR ''=''), Printed ''Profiling missing'',
       Printed ''Error profiling missing: Model config for missing not found.'',
       PrintedTraceback (RuntimeError ''Model config for missing not found.'')],
      Some (IndexError ''list index out of range''))"
  by (simp add: main_def parser_defaults_def profile_model_def example_env_def)

text \<open>
  C6. With a non-empty results file name and a single model whose profiling raises, the
  run ends with that \<open>IndexError\<close> and no file is written.
\<close>

theorem main_results_file_unwritten:
  "results_file (parser_defaults\<lparr>model := ''bogus'', results_file := ''out.csv''\<rparr>) \<noteq> []
   \<and> main example_env (parser_defaults\<lparr>model := ''bogus'', results_file := ''out.csv''\<rparr>) =
     ([Printed (replicate 100 CHR ''=''), Printed ''Profiling bogus'',
       Printed ''Error profiling bogus: Model config for bogus not found.'',
       PrintedTraceback (RuntimeError ''Model config for bogus not found.'')],
      Some (IndexError ''list index out of range''))"
  by (simp add: main_def parser_defaults_def profile_model_def example_env_def)

end
